theory Spec2Isabelle
  imports Complex_Main
begin

section \<open>JavaScript values\<close>

text \<open>
  The values the handlers of \<^verbatim>\<open>Backend/server.js\<close> build and inspect. A property of
  an object literal may hold \<^verbatim>\<open>undefined\<close>, so \<open>JUndefined\<close> is a value of its own
  next to the six kinds of JSON value. An object is the list of its properties in
  insertion order, each name once (JavaScript lists names that are array indices
  first; that reordering is not represented).

  A string is the list of the bytes that encode its UTF-16 code units one by one (one
  byte below 0x80, two below 0x800, three otherwise), so ASCII text is itself and two
  strings are equal exactly when their encodings are.

  A number is a double: a finite one is given by its exact value, and the two
  infinities are values of their own. Negative zero is not told from zero, and NaN,
  which no handler and no JSON text produces, is left out.
\<close>

datatype number = Finite rat | PosInfinity | NegInfinity

datatype jsvalue =
    JUndefined
  | JNull
  | JBool bool
  | JNum number
  | JStr string
  | JArr "jsvalue list"
  | JObj "(string \<times> jsvalue) list"

text \<open>What \<^verbatim>\<open>!x\<close> and \<^verbatim>\<open>x || y\<close> test.\<close>

fun truthy :: "jsvalue \<Rightarrow> bool" where
  "truthy JUndefined = False"
| "truthy JNull = False"
| "truthy (JBool b) = b"
| "truthy (JNum n) = (n \<noteq> Finite 0)"
| "truthy (JStr s) = (s \<noteq> [])"
| "truthy (JArr vs) = True"
| "truthy (JObj ms) = True"

text \<open>
  Reading a property, for the names the handlers read (none of them is a built-in
  property of an array or a string): \<^verbatim>\<open>undefined\<close> when the value has none of
  that name.
\<close>

fun get_prop :: "jsvalue \<Rightarrow> string \<Rightarrow> jsvalue" where
  "get_prop (JObj ms) k = (case map_of ms k of None \<Rightarrow> JUndefined | Some v \<Rightarrow> v)"
| "get_prop v k = JUndefined"

text \<open>A string that may be \<^verbatim>\<open>undefined\<close>, as a value and as \<^verbatim>\<open>ToString\<close> reads it.\<close>

definition js_string :: "string option \<Rightarrow> jsvalue" where
  "js_string s = (case s of None \<Rightarrow> JUndefined | Some t \<Rightarrow> JStr t)"

definition ToString :: "string option \<Rightarrow> string" where
  "ToString s = (case s of None \<Rightarrow> ''undefined'' | Some t \<Rightarrow> t)"


section \<open>JSON.parse\<close>

text \<open>
  \<^verbatim>\<open>JSON.parse\<close> is part of the language; the handlers rely on which texts it accepts
  and on the value it builds. It is modelled after the JSON grammar of ECMA-404 in two
  passes: the text is cut into tokens, and the tokens are read with an explicit stack
  of open containers. \<open>None\<close> stands for the \<^verbatim>\<open>SyntaxError\<close> it throws.
\<close>

datatype token =
    LBrace | RBrace | LBrack | RBrack | Colon | Comma
  | TStr string | TNum number | TTrue | TFalse | TNull

definition is_ws :: "char \<Rightarrow> bool" where
  "is_ws c = (c = CHR '' '' \<or> c = CHR 0x09 \<or> c = CHR 0x0A \<or> c = CHR 0x0D)"

definition is_digit :: "char \<Rightarrow> bool" where
  "is_digit c = (48 \<le> (of_char c :: nat) \<and> (of_char c :: nat) \<le> 57)"

definition digit_val :: "char \<Rightarrow> nat" where
  "digit_val c = of_char c - 48"

definition hex_val :: "char \<Rightarrow> nat option" where
  "hex_val c =
     (let n = (of_char c :: nat) in
      if 48 \<le> n \<and> n \<le> 57 then Some (n - 48)
      else if 65 \<le> n \<and> n \<le> 70 then Some (n - 55)
      else if 97 \<le> n \<and> n \<le> 102 then Some (n - 87)
      else None)"

text \<open>The bytes of one UTF-16 code unit.\<close>

definition code_unit :: "nat \<Rightarrow> string" where
  "code_unit n =
     (if n < 0x80 then [char_of n]
      else if n < 0x800 then [char_of (0xC0 + n div 64), char_of (0x80 + n mod 64)]
      else [char_of (0xE0 + n div 4096), char_of (0x80 + (n div 64) mod 64),
            char_of (0x80 + n mod 64)])"

definition unescape :: "char \<Rightarrow> char option" where
  "unescape e =
     (if e = CHR 0x22 then Some (CHR 0x22)
      else if e = CHR 0x5C then Some (CHR 0x5C)
      else if e = CHR ''/'' then Some (CHR ''/'')
      else if e = CHR ''b'' then Some (CHR 0x08)
      else if e = CHR ''f'' then Some (CHR 0x0C)
      else if e = CHR ''n'' then Some (CHR 0x0A)
      else if e = CHR ''r'' then Some (CHR 0x0D)
      else if e = CHR ''t'' then Some (CHR 0x09)
      else None)"

text \<open>What follows a backslash inside a string: the bytes it denotes and the rest.\<close>

definition lex_escape :: "string \<Rightarrow> (string \<times> string) option" where
  "lex_escape cs =
     (case cs of
        [] \<Rightarrow> None
      | e # cs' \<Rightarrow>
          (if e = CHR ''u'' then
             (case cs' of
                h1 # h2 # h3 # h4 # rest \<Rightarrow>
                  (case hex_val h1 of None \<Rightarrow> None | Some a \<Rightarrow>
                   case hex_val h2 of None \<Rightarrow> None | Some b \<Rightarrow>
                   case hex_val h3 of None \<Rightarrow> None | Some c \<Rightarrow>
                   case hex_val h4 of None \<Rightarrow> None | Some d \<Rightarrow>
                     Some (code_unit (((a * 16 + b) * 16 + c) * 16 + d), rest))
              | _ \<Rightarrow> None)
           else map_option (\<lambda>ch. ([ch], cs')) (unescape e)))"

lemma lex_escape_shorter: "lex_escape cs = Some (d, rest) \<Longrightarrow> length rest < length cs"
  unfolding lex_escape_def
  by (simp split: list.splits option.splits if_splits) auto

text \<open>
  A string after its opening quote, up to the closing one: the content and the rest.
  A control character below 0x20 is not allowed inside.
\<close>

function lex_string :: "string \<Rightarrow> (string \<times> string) option" where
  "lex_string [] = None"
| "lex_string (c # cs) =
     (if c = CHR 0x22 then Some ([], cs)
      else if c = CHR 0x5C then
        (case lex_escape cs of
           None \<Rightarrow> None
         | Some (d, rest) \<Rightarrow> map_option (\<lambda>(s, r). (d @ s, r)) (lex_string rest))
      else if (of_char c :: nat) < 0x20 then None
      else map_option (\<lambda>(s, r). (c # s, r)) (lex_string cs))"
  by pat_completeness auto
termination
proof (relation "measure length", goal_cases)
  case (2 c cs x2 d rest)
  then show ?case using lex_escape_shorter [of cs d rest] by simp
qed simp_all

lemma lex_string_shorter: "lex_string cs = Some (s, r) \<Longrightarrow> length r < length cs"
proof (induction cs arbitrary: s r rule: lex_string.induct)
  case 1
  then show ?case by simp
next
  case (2 c cs)
  show ?case
  proof (cases "c = CHR 0x22")
    case True
    with 2 show ?thesis by simp
  next
    case nq: False
    show ?thesis
    proof (cases "c = CHR 0x5C")
      case True
      with nq 2(3) obtain d rest s' where e: "lex_escape cs = Some (d, rest)"
        and l: "lex_string rest = Some (s', r)"
        by (auto split: option.splits)
      from 2(1) [OF nq True _ _ l] e have "length r < length rest" by simp
      moreover have "length rest < length cs" using e by (rule lex_escape_shorter)
      ultimately show ?thesis by simp
    next
      case False
      with nq 2(3) obtain s' where l: "lex_string cs = Some (s', r)"
        and nc: "\<not> (of_char c :: nat) < 0x20"
        by (auto split: if_splits)
      from 2(2) [OF nq False nc l] show ?thesis by simp
    qed
  qed
qed

text \<open>
  A number: an optional minus, the integer part (a single 0, or digits that do not
  start with 0), an optional fraction, an optional exponent.
\<close>

definition digits_val :: "string \<Rightarrow> int" where
  "digits_val ds = foldl (\<lambda>n d. 10 * n + int (digit_val d)) 0 ds"

text \<open>
  The value of a literal is the double nearest to the decimal it writes, a tie going
  to the even mantissa; a literal beyond the range of the doubles gives an infinity.
  \<open>double_of_ratio a b\<close> is that double for the ratio \<open>a / b\<close> of a natural number and
  a positive one: \<open>e\<close> is the binary exponent of the ratio (\<open>2 ^ e \<le> a / b < 2 ^ (e + 1)\<close>),
  \<open>s\<close> the exponent of the last place of a double of that size (that of the subnormal
  numbers below \<open>2 ^ - 1022\<close>), and \<open>m\<close> the ratio in units of \<open>2 ^ s\<close>, rounded to an integer.
\<close>

function bit_length :: "int \<Rightarrow> nat" where
  "bit_length n = (if n \<le> 0 then 0 else Suc (bit_length (n div 2)))"
  by pat_completeness auto
termination
  by (relation "measure nat") auto

declare bit_length.simps [simp del]

definition pow2 :: "int \<Rightarrow> rat" where
  "pow2 k = (if 0 \<le> k then 2 ^ nat k else 1 / 2 ^ nat (- k))"

definition round_half_even :: "int \<Rightarrow> int \<Rightarrow> int" where
  "round_half_even a b =
     (let f = a div b; r = a mod b in
      if 2 * r < b then f
      else if b < 2 * r then f + 1
      else if even f then f else f + 1)"

definition double_of_ratio :: "int \<Rightarrow> int \<Rightarrow> number" where
  "double_of_ratio a b =
     (if a = 0 then Finite 0
      else
        (let k = int (bit_length a) - int (bit_length b);
             e = (if (if 0 \<le> k then b * 2 ^ nat k \<le> a else b \<le> a * 2 ^ nat (- k))
                  then k else k - 1);
             s = max e (- 1022) - 52;
             m = (if 0 \<le> s then round_half_even a (b * 2 ^ nat s)
                  else round_half_even (a * 2 ^ nat (- s)) b)
         in if 0 \<le> s \<and> 2 ^ 1024 \<le> m * 2 ^ nat s then PosInfinity
            else Finite (of_int m * pow2 s)))"

fun negate :: "number \<Rightarrow> number" where
  "negate (Finite q) = Finite (- q)"
| "negate PosInfinity = NegInfinity"
| "negate NegInfinity = PosInfinity"

definition number_value :: "bool \<Rightarrow> string \<Rightarrow> string \<Rightarrow> int \<Rightarrow> number" where
  "number_value neg ds fs ex =
     (let m = digits_val (ds @ fs);
          e = ex - int (length fs);
          d = (if 0 \<le> e then double_of_ratio (m * 10 ^ nat e) 1
               else double_of_ratio m (10 ^ nat (- e)))
      in if neg then negate d else d)"

definition lex_sign :: "string \<Rightarrow> bool \<times> string" where
  "lex_sign cs =
     (case cs of [] \<Rightarrow> (False, []) | c # r \<Rightarrow> if c = CHR ''-'' then (True, r) else (False, cs))"

definition lex_int :: "string \<Rightarrow> (string \<times> string) option" where
  "lex_int cs =
     (let ds = takeWhile is_digit cs in
      if ds = [] \<or> (1 < length ds \<and> hd ds = CHR ''0'') then None
      else Some (ds, dropWhile is_digit cs))"

definition lex_frac :: "string \<Rightarrow> (string \<times> string) option" where
  "lex_frac cs =
     (case cs of
        [] \<Rightarrow> Some ([], [])
      | c # r \<Rightarrow>
          if c = CHR ''.'' then
            (let fs = takeWhile is_digit r in
             if fs = [] then None else Some (fs, dropWhile is_digit r))
          else Some ([], cs))"

definition lex_exp_digits :: "bool \<Rightarrow> string \<Rightarrow> (int \<times> string) option" where
  "lex_exp_digits eneg cs =
     (let es = takeWhile is_digit cs in
      if es = [] then None
      else Some (if eneg then - digits_val es else digits_val es,
                 dropWhile is_digit cs))"

definition lex_exp :: "string \<Rightarrow> (int \<times> string) option" where
  "lex_exp cs =
     (case cs of
        [] \<Rightarrow> Some (0, [])
      | c # r \<Rightarrow>
          if c = CHR ''e'' \<or> c = CHR ''E'' then
            (case r of
               [] \<Rightarrow> None
             | g # r' \<Rightarrow>
                 if g = CHR ''-'' then lex_exp_digits True r'
                 else if g = CHR ''+'' then lex_exp_digits False r'
                 else lex_exp_digits False r)
          else Some (0, cs))"

definition lex_number :: "string \<Rightarrow> (number \<times> string) option" where
  "lex_number cs =
     (case lex_sign cs of
        (neg, cs1) \<Rightarrow>
          (case lex_int cs1 of
             None \<Rightarrow> None
           | Some (ds, cs2) \<Rightarrow>
               (case lex_frac cs2 of
                  None \<Rightarrow> None
                | Some (fs, cs3) \<Rightarrow>
                    (case lex_exp cs3 of
                       None \<Rightarrow> None
                     | Some (ex, rest) \<Rightarrow> Some (number_value neg ds fs ex, rest)))))"

lemma dropWhile_shorter: "takeWhile P xs \<noteq> [] \<Longrightarrow> length (dropWhile P xs) < length xs"
  by (cases xs) (auto simp: less_Suc_eq_le length_dropWhile_le split: if_splits)

lemma lex_sign_shorter: "lex_sign cs = (neg, r) \<Longrightarrow> length r \<le> length cs"
  by (auto simp: lex_sign_def split: list.splits if_splits)

lemma lex_int_shorter: "lex_int cs = Some (ds, r) \<Longrightarrow> length r < length cs"
  by (auto simp: lex_int_def Let_def dropWhile_shorter split: if_splits)

lemma lex_frac_shorter: "lex_frac cs = Some (fs, r) \<Longrightarrow> length r \<le> length cs"
  by (auto simp: lex_frac_def Let_def split: list.splits if_splits
           intro: le_trans [OF length_dropWhile_le])

lemma lex_exp_digits_shorter: "lex_exp_digits g cs = Some (e, r) \<Longrightarrow> length r \<le> length cs"
  by (auto simp: lex_exp_digits_def Let_def length_dropWhile_le split: if_splits)

lemma lex_exp_shorter: "lex_exp cs = Some (e, r) \<Longrightarrow> length r \<le> length cs"
  by (auto simp: lex_exp_def split: list.splits if_splits
           dest!: lex_exp_digits_shorter)

lemma lex_number_shorter:
  assumes "lex_number cs = Some (v, rest)"
  shows "length rest < length cs"
proof -
  obtain neg cs1 where s: "lex_sign cs = (neg, cs1)" by (cases "lex_sign cs")
  with assms obtain ds cs2 where i: "lex_int cs1 = Some (ds, cs2)"
    by (auto simp: lex_number_def split: option.splits)
  with s assms obtain fs cs3 where f: "lex_frac cs2 = Some (fs, cs3)"
    by (auto simp: lex_number_def split: option.splits)
  with s i assms obtain ex where e: "lex_exp cs3 = Some (ex, rest)"
    by (auto simp: lex_number_def split: option.splits)
  show ?thesis
    using lex_sign_shorter [OF s] lex_int_shorter [OF i] lex_frac_shorter [OF f]
      lex_exp_shorter [OF e]
    by linarith
qed

text \<open>The tokens of a text; \<open>None\<close> when some character starts no token.\<close>

function lex :: "string \<Rightarrow> token list option" where
  "lex [] = Some []"
| "lex (c # cs) =
     (if is_ws c then lex cs
      else if c = CHR ''{'' then map_option ((#) LBrace) (lex cs)
      else if c = CHR ''}'' then map_option ((#) RBrace) (lex cs)
      else if c = CHR ''['' then map_option ((#) LBrack) (lex cs)
      else if c = CHR '']'' then map_option ((#) RBrack) (lex cs)
      else if c = CHR '':'' then map_option ((#) Colon) (lex cs)
      else if c = CHR '','' then map_option ((#) Comma) (lex cs)
      else if c = CHR 0x22 then
        (case lex_string cs of
           None \<Rightarrow> None
         | Some (s, rest) \<Rightarrow> map_option ((#) (TStr s)) (lex rest))
      else if c = CHR ''-'' \<or> is_digit c then
        (case lex_number (c # cs) of
           None \<Rightarrow> None
         | Some (v, rest) \<Rightarrow> map_option ((#) (TNum v)) (lex rest))
      else if take 4 (c # cs) = ''true'' then map_option ((#) TTrue) (lex (drop 3 cs))
      else if take 5 (c # cs) = ''false'' then map_option ((#) TFalse) (lex (drop 4 cs))
      else if take 4 (c # cs) = ''null'' then map_option ((#) TNull) (lex (drop 3 cs))
      else None)"
  by pat_completeness auto
termination
  apply (relation "measure length")
  apply simp_all
  subgoal for c cs x2 s rest using lex_string_shorter [of cs s rest] by simp
  subgoal for c cs x2 v rest using lex_number_shorter [of "c # cs" v rest] by simp
  done

text \<open>
  Reading the tokens. The stack holds the containers that are open, innermost first:
  an array with its elements so far, an object with its members so far, and above an
  object the name that waits for its value. A name that occurs again replaces the value
  of the member and keeps its place.
\<close>

datatype frame = FArr "jsvalue list" | FObj "(string \<times> jsvalue) list" | FKey string

datatype pstate =
    ExpectValue
  | ExpectValueOrClose
  | ExpectKeyOrClose
  | ExpectKey
  | ExpectColon
  | AfterElement
  | AfterMember
  | Done jsvalue

fun set_prop :: "string \<Rightarrow> jsvalue \<Rightarrow> (string \<times> jsvalue) list \<Rightarrow> (string \<times> jsvalue) list" where
  "set_prop k v [] = [(k, v)]"
| "set_prop k v ((k', v') # ms) = (if k' = k then (k, v) # ms else (k', v') # set_prop k v ms)"

fun complete :: "jsvalue \<Rightarrow> frame list \<Rightarrow> (pstate \<times> frame list) option" where
  "complete v [] = Some (Done v, [])"
| "complete v (FArr els # st) = Some (AfterElement, FArr (els @ [v]) # st)"
| "complete v (FKey k # FObj ms # st) = Some (AfterMember, FObj (set_prop k v ms) # st)"
| "complete v st = None"

fun start_value :: "token \<Rightarrow> frame list \<Rightarrow> (pstate \<times> frame list) option" where
  "start_value (TStr s) st = complete (JStr s) st"
| "start_value (TNum n) st = complete (JNum n) st"
| "start_value TTrue st = complete (JBool True) st"
| "start_value TFalse st = complete (JBool False) st"
| "start_value TNull st = complete JNull st"
| "start_value LBrace st = Some (ExpectKeyOrClose, FObj [] # st)"
| "start_value LBrack st = Some (ExpectValueOrClose, FArr [] # st)"
| "start_value t st = None"

fun close_array :: "frame list \<Rightarrow> (pstate \<times> frame list) option" where
  "close_array (FArr els # st) = complete (JArr els) st"
| "close_array st = None"

fun close_object :: "frame list \<Rightarrow> (pstate \<times> frame list) option" where
  "close_object (FObj ms # st) = complete (JObj ms) st"
| "close_object st = None"

fun step :: "pstate \<Rightarrow> frame list \<Rightarrow> token \<Rightarrow> (pstate \<times> frame list) option" where
  "step ExpectValue st t = start_value t st"
| "step ExpectValueOrClose st t = (if t = RBrack then close_array st else start_value t st)"
| "step ExpectKeyOrClose st t =
     (case t of TStr k \<Rightarrow> Some (ExpectColon, FKey k # st) | RBrace \<Rightarrow> close_object st | _ \<Rightarrow> None)"
| "step ExpectKey st t = (case t of TStr k \<Rightarrow> Some (ExpectColon, FKey k # st) | _ \<Rightarrow> None)"
| "step ExpectColon st t = (if t = Colon then Some (ExpectValue, st) else None)"
| "step AfterElement st t =
     (if t = Comma then Some (ExpectValue, st) else if t = RBrack then close_array st else None)"
| "step AfterMember st t =
     (if t = Comma then Some (ExpectKey, st) else if t = RBrace then close_object st else None)"
| "step (Done v) st t = None"

fun parse_tokens :: "pstate \<Rightarrow> frame list \<Rightarrow> token list \<Rightarrow> jsvalue option" where
  "parse_tokens (Done v) [] [] = Some v"
| "parse_tokens s st [] = None"
| "parse_tokens s st (t # ts) =
     (case step s st t of None \<Rightarrow> None | Some (s', st') \<Rightarrow> parse_tokens s' st' ts)"

definition JSON_parse :: "string \<Rightarrow> jsvalue option" where
  "JSON_parse txt =
     (case lex txt of None \<Rightarrow> None | Some ts \<Rightarrow> parse_tokens ExpectValue [] ts)"



section \<open>The model client\<close>

text \<open>
  \<^verbatim>\<open>ai.models.generateContent(params)\<close> belongs to the SDK. A call either throws an
  error object or resolves to a response object. The code reads a response in two ways
  only: its \<^verbatim>\<open>text\<close> accessor (a string, or \<^verbatim>\<open>undefined\<close>) and
  \<^verbatim>\<open>JSON.stringify\<close> of it (a string, for an object); the record holds these two
  observations.
\<close>

datatype error = Error (name: string) (message: string)

record response =
  resp_text :: "string option"
  stringified :: string

text \<open>
  The client is a process-wide handle whose answers the program does not control:
  \<open>client k params\<close> is the outcome of the call number \<open>k\<close> (from 0) that one run of
  \<open>generateWithRetry\<close> makes, \<open>Inl\<close> when the call throws.
\<close>

type_synonym client = "nat \<Rightarrow> jsvalue \<Rightarrow> error + response"

section \<open>Observable effects\<close>

text \<open>
  What a run does besides returning: calls of the client, suspensions
  (\<^verbatim>\<open>setTimeout\<close> with the delay in milliseconds) and console output, in order.
  \<open>LogFailure\<close> carries the attempt number, \<^verbatim>\<open>retries\<close> and the message that
  \<^verbatim>\<open>console.error\<close> prints; \<open>LogResponse\<close> stands for the trimmed print of the
  response; \<open>ConsoleError\<close> is the line a handler prints before its fallback.
\<close>

datatype event =
    Invoke jsvalue
  | LogResponse response
  | LogFailure nat int string
  | Sleep int
  | ConsoleError string error

fun is_invoke :: "event \<Rightarrow> bool" where
  "is_invoke (Invoke p) = True"
| "is_invoke e = False"

definition invocations :: "event list \<Rightarrow> nat" where
  "invocations tr = length (filter is_invoke tr)"

fun sleep_of :: "event \<Rightarrow> int list" where
  "sleep_of (Sleep d) = [d]"
| "sleep_of e = []"

definition delays :: "event list \<Rightarrow> int list" where
  "delays tr = concat (map sleep_of tr)"

section \<open>generateWithRetry\<close>

text \<open>
  \<^verbatim>\<open>err?.message || err?.toString?.() || String(err)\<close> for an error object: its
  message, or when that is empty what \<^verbatim>\<open>toString\<close> gives then, its name.
\<close>

definition failure_msg :: "error \<Rightarrow> string" where
  "failure_msg err = (if message err \<noteq> [] then message err else name err)"

text \<open>
  The \<^verbatim>\<open>while (attempt < retries)\<close> loop, entered with the counter at \<open>attempt\<close>.
  A resolved call returns the response; a thrown one increments the counter, logs,
  rethrows when the counter has reached \<^verbatim>\<open>retries\<close> and otherwise sleeps
  \<^verbatim>\<open>initialDelay * Math.pow(2, attempt - 1)\<close> before the next round. Leaving the loop
  by its condition falls off the end of the function: the result is \<^verbatim>\<open>undefined\<close>,
  here \<open>Inr None\<close>. \<^verbatim>\<open>retries\<close> and \<^verbatim>\<open>initialDelay\<close> are integers (the product
  with a power of two is exact in a double as long as it is finite).
\<close>

function generateWithRetry_from ::
  "client \<Rightarrow> jsvalue \<Rightarrow> int \<Rightarrow> int \<Rightarrow> nat \<Rightarrow> (error + response option) \<times> event list" where
  "generateWithRetry_from client params retries initialDelay attempt =
     (if int attempt < retries then
        (case client attempt params of
           Inr resp \<Rightarrow> (Inr (Some resp), [Invoke params, LogResponse resp])
         | Inl err \<Rightarrow>
             (if int (attempt + 1) \<ge> retries
              then (Inl err,
                    [Invoke params, LogFailure (attempt + 1) retries (failure_msg err)])
              else (case generateWithRetry_from client params retries initialDelay (attempt + 1) of
                      (r, tr) \<Rightarrow>
                        (r, [Invoke params,
                             LogFailure (attempt + 1) retries (failure_msg err),
                             Sleep (initialDelay * 2 ^ ((attempt + 1) - 1))] @ tr))))
      else (Inr None, []))"
  by pat_completeness auto
termination
  by (relation "measure (\<lambda>(client, params, retries, initialDelay, attempt). nat (retries - int attempt))") auto

declare generateWithRetry_from.simps [simp del]

definition generateWithRetry ::
  "client \<Rightarrow> jsvalue \<Rightarrow> int \<Rightarrow> int \<Rightarrow> (error + response option) \<times> event list" where
  "generateWithRetry client params retries initialDelay =
     generateWithRetry_from client params retries initialDelay 0"

text \<open>
  The events of the failed attempt number \<open>i\<close> (from 1) that is followed by a retry:
  the call, the log line, the suspension.
\<close>

definition retry_block :: "client \<Rightarrow> jsvalue \<Rightarrow> int \<Rightarrow> int \<Rightarrow> nat \<Rightarrow> event list" where
  "retry_block client params retries initialDelay i =
     [Invoke params,
      LogFailure i retries (failure_msg (projl (client (i - 1) params))),
      Sleep (initialDelay * 2 ^ (i - 1))]"

section \<open>HTTP responses\<close>

text \<open>
  What a handler sends: the status (\<^verbatim>\<open>res.json\<close> alone sends 200) and the object
  handed to \<^verbatim>\<open>res.json\<close>.
\<close>

record 'b http_response =
  status :: nat
  body :: 'b

text \<open>
  \<^verbatim>\<open>response?.text ?? JSON.stringify(response)\<close>: the text of the response, and
  when there is none its serialisation. For \<^verbatim>\<open>undefined\<close> in place of a response
  both operands are \<^verbatim>\<open>undefined\<close>.
\<close>

definition text_or_stringified :: "response option \<Rightarrow> string option" where
  "text_or_stringified response =
     (case response of
        None \<Rightarrow> None
      | Some r \<Rightarrow> (case resp_text r of Some t \<Rightarrow> Some t | None \<Rightarrow> Some (stringified r)))"

section \<open>POST /api/assistant\<close>

definition systemPrompt :: string where
  "systemPrompt = ''You are a helpful, accurate, and cautious dermatology assistant. Provide clear, non-prescriptive information. If the user requests medical advice, include a disclaimer to consult a dermatologist.''"

definition mock :: string where
  "mock = ''I'm temporarily unable to reach the AI model. Here are some general skin care tips: keep skin clean, avoid picking lesions, use gentle sunscreen, and consult a dermatologist for persistent issues.''"

text \<open>\<^verbatim>\<open>const { prompt } = req.body || {}\<close>, for the parsed body of the request.\<close>

definition prompt_of :: "jsvalue \<Rightarrow> jsvalue" where
  "prompt_of req_body = get_prop (if truthy req_body then req_body else JObj []) ''prompt''"

text \<open>The argument of \<open>generateWithRetry\<close>: the model and the two content parts.\<close>

definition assistant_params :: "jsvalue \<Rightarrow> jsvalue" where
  "assistant_params prompt =
     JObj [(''model'', JStr ''gemini-2.5-flash''),
           (''contents'', JArr [JObj [(''text'', JStr systemPrompt)],
                                JObj [(''text'', prompt)]])]"

text \<open>
  The handler, from the parsed body to the response and the effects. Nothing outside
  the inner \<^verbatim>\<open>try\<close> throws here, so the outer \<^verbatim>\<open>catch\<close> (status 500) has no
  branch.
\<close>

definition assistant :: "client \<Rightarrow> jsvalue \<Rightarrow> jsvalue http_response \<times> event list" where
  "assistant client req_body =
     (let prompt = prompt_of req_body in
      if \<not> truthy prompt
      then (\<lparr>status = 400,
             body = JObj [(''success'', JBool False), (''error'', JStr ''Missing prompt'')]\<rparr>, [])
      else
        (case generateWithRetry client (assistant_params prompt) 3 1000 of
           (Inr response, tr) \<Rightarrow>
             (\<lparr>status = 200,
               body = JObj [(''success'', JBool True),
                            (''text'', js_string (text_or_stringified response))]\<rparr>, tr)
         | (Inl err, tr) \<Rightarrow>
             (\<lparr>status = 503,
               body = JObj [(''success'', JBool False), (''error'', JStr ''model unavailable''),
                            (''text'', JStr mock)]\<rparr>,
              tr @ [ConsoleError ''Assistant final error:'' err])))"

section \<open>POST /api/analyze-image\<close>

text \<open>
  The uploaded file as the handler reads it: its media type, and the base64 text of
  its bytes (\<^verbatim>\<open>req.file.buffer.toString("base64")\<close>).
\<close>

record upload =
  mimetype :: string
  base64 :: string

definition userPrompt :: string where
  \<open>userPrompt = concat (map (\<lambda>l. l @ [CHR 0x0A])
     [[],
      ''You are an expert dermatology assistant. Analyze the provided skin photo and return ONLY a single JSON object (no extra text).'',
      ''JSON keys:'',
      ''- diagnosis: short label (e.g. "acne", "eczema", "hyperpigmentation", "normal", "other")'',
      ''- differential: array of possible alternate diagnoses (strings)'',
      ''- confidence: number 0-100'',
      ''- severity: "low"|"medium"|"high"'',
      ''- treatment_recommendations: array of short recommendation strings (non-prescriptive; include topical suggestions, lifestyle tips)'',
      ''- refer_to_dermatologist: boolean'',
      ''- notes: any short caveats (e.g. "image poor quality")'',
      ''- disclaimer: short text: "Not a medical diagnosis; consult a dermatologist."'',
      [],
      ''Provide numeric or short textual values only. No markdown, no extra commentary, strictly JSON.''])\<close>

definition analyze_params :: "upload \<Rightarrow> jsvalue" where
  "analyze_params f =
     JObj [(''model'', JStr ''gemini-2.5-flash''),
           (''contents'',
            JArr [JObj [(''inlineData'',
                         JObj [(''mimeType'',
                                JStr (if mimetype f \<noteq> [] then mimetype f else ''image/jpeg'')),
                               (''data'', JStr (base64 f))])],
                  JObj [(''text'', JStr userPrompt)]])]"

definition fallback :: jsvalue where
  "fallback =
     JObj [(''diagnosis'', JStr ''other''),
           (''differential'', JArr [JStr ''acne'', JStr ''contact_dermatitis'']),
           (''confidence'', JNum (Finite 45)),
           (''severity'', JStr ''low''),
           (''treatment_recommendations'',
            JArr [JStr ''Keep area clean'', JStr ''Use gentle cleanser'',
                  JStr ''Apply non-comedogenic moisturizer'', JStr ''Avoid irritants'']),
           (''refer_to_dermatologist'', JBool False),
           (''notes'', JStr ''Model unavailable; returning conservative suggestions.''),
           (''disclaimer'', JStr ''Not a medical diagnosis; consult a dermatologist.'')]"

text \<open>
  \<^verbatim>\<open>try { parsed = JSON.parse(rawText) } catch (err) { parsed = { rawText } }\<close>.
  \<^verbatim>\<open>JSON.parse\<close> reads its argument through \<^verbatim>\<open>ToString\<close>.
\<close>

definition parse_or_wrap :: "string option \<Rightarrow> jsvalue" where
  "parse_or_wrap rawText =
     (case JSON_parse (ToString rawText) of
        Some parsed \<Rightarrow> parsed
      | None \<Rightarrow> JObj [(''rawText'', js_string rawText)])"

text \<open>
  The handler, from \<^verbatim>\<open>req.file\<close> (absent when no image was uploaded) to the
  response and the effects. As above the outer \<^verbatim>\<open>catch\<close> has no branch.
\<close>

definition analyze_image :: "client \<Rightarrow> upload option \<Rightarrow> jsvalue http_response \<times> event list" where
  "analyze_image client file =
     (case file of
        None \<Rightarrow> (\<lparr>status = 400, body = JObj [(''error'', JStr ''No image uploaded'')]\<rparr>, [])
      | Some f \<Rightarrow>
          (case generateWithRetry client (analyze_params f) 3 1000 of
             (Inr response, tr) \<Rightarrow>
               (let rawText = text_or_stringified response;
                    parsed = parse_or_wrap rawText
                in (\<lparr>status = 200,
                     body = JObj [(''success'', JBool True), (''result'', parsed)]\<rparr>, tr))
           | (Inl err, tr) \<Rightarrow>
               (\<lparr>status = 503,
                 body = JObj [(''success'', JBool False), (''error'', JStr ''model unavailable''),
                              (''result'', fallback)]\<rparr>,
                tr @ [ConsoleError ''Analyze final error:'' err])))"




section \<open>GET /api/analyses\<close>

text \<open>
  A stored document of \<^verbatim>\<open>models/Analysis.js\<close>: the fields of the schema, the
  identifier and the two timestamps (milliseconds) that the store adds.
\<close>

record analysis =
  doc_id :: string
  imageName :: "string option"
  result :: jsvalue
  notes' :: "string option"
  referToDerm :: bool
  createdAt :: int
  updatedAt :: int

text \<open>
  The store belongs to the database driver. A query either rejects with an error or is
  answered from the collection. \<^verbatim>\<open>Analysis.find().sort({ createdAt: -1 }).limit(100)\<close>
  asks for all documents by descending \<^verbatim>\<open>createdAt\<close>, the first 100 of them;
  documents with equal timestamps come in an order the store chooses (here the order
  of the collection).
\<close>

datatype store = Available "analysis list" | Unavailable error

definition find_sort_limit :: "store \<Rightarrow> error + analysis list" where
  "find_sort_limit s =
     (case s of
        Unavailable err \<Rightarrow> Inl err
      | Available docs \<Rightarrow> Inr (take 100 (sort_key (\<lambda>d. - createdAt d) docs)))"

text \<open>The two bodies of the handler: \<^verbatim>\<open>{ success, analyses }\<close> and \<^verbatim>\<open>{ success, error }\<close>.\<close>

datatype list_body = Analyses bool "analysis list" | Failure bool string

definition list_analyses :: "store \<Rightarrow> list_body http_response \<times> event list" where
  "list_analyses s =
     (case find_sort_limit s of
        Inr list \<Rightarrow> (\<lparr>status = 200, body = Analyses True list\<rparr>, [])
      | Inl err \<Rightarrow>
          (\<lparr>status = 500, body = Failure False (message err)\<rparr>,
           [ConsoleError ''List analyses error:'' err]))"

text \<open>A collection of three documents, for the examples.\<close>

definition sample_docs :: "analysis list" where
  "sample_docs =
     [\<lparr>doc_id = ''a'', imageName = None, result = JObj [(''x'', JNum (Finite 1))], notes' = None,
       referToDerm = False, createdAt = 1000, updatedAt = 1000\<rparr>,
      \<lparr>doc_id = ''b'', imageName = Some ''face.png'', result = JObj [(''rawText'', JStr ''hello'')],
       notes' = None, referToDerm = True, createdAt = 3000, updatedAt = 3000\<rparr>,
      \<lparr>doc_id = ''c'', imageName = None, result = JNum (Finite 42), notes' = Some ''n'',
       referToDerm = False, createdAt = 2000, updatedAt = 2500\<rparr>]"

section \<open>POST /api/analyses\<close>








section \<open>Properties of generateWithRetry\<close>

lemma invocations_append: "invocations (xs @ ys) = invocations xs + invocations ys"
  by (simp add: invocations_def)

lemma delays_append: "delays (xs @ ys) = delays xs @ delays ys"
  by (simp add: delays_def)

lemma invocations_blocks:
  "invocations (concat (map (retry_block client params retries b) is)) = length is"
  by (induction "is") (simp_all add: invocations_def retry_block_def)

lemma delays_blocks:
  "delays (concat (map (retry_block client params retries b) is)) = map (\<lambda>i. b * 2 ^ (i - 1)) is"
  by (induction "is") (simp_all add: delays_def retry_block_def)

lemma retries_exhausted_from:
  assumes "a < n" and "\<forall>j. a \<le> j \<and> j < n \<longrightarrow> isl (client j params)"
  shows "generateWithRetry_from client params (int n) b a =
           (Inl (projl (client (n - 1) params)),
            concat (map (retry_block client params (int n) b) [a + 1..<n]) @
            [Invoke params, LogFailure n (int n) (failure_msg (projl (client (n - 1) params)))])"
  using assms
proof (induction "n - a" arbitrary: a)
  case 0
  then show ?case by simp
next
  case (Suc d)
  from Suc.prems have fa: "isl (client a params)" by simp
  then obtain e where e: "client a params = Inl e" by (cases "client a params") auto
  show ?case
  proof (cases "a + 1 = n")
    case True
    then have "n - 1 = a" by simp
    with True e show ?thesis
      by (subst generateWithRetry_from.simps) simp
  next
    case False
    with Suc.prems have lt: "a + 1 < n" by simp
    have d: "d = n - (a + 1)" using Suc.hyps(2) by simp
    have rest: "\<forall>j. a + 1 \<le> j \<and> j < n \<longrightarrow> isl (client j params)"
      using Suc.prems(2) by simp
    note ih = Suc.hyps(1) [OF d lt rest]
    have upt: "[a + 1..<n] = (a + 1) # [a + 1 + 1..<n]"
      using lt by (simp add: upt_conv_Cons)
    show ?thesis
      using lt e ih
      by (subst generateWithRetry_from.simps, subst upt) (simp add: retry_block_def)
  qed
qed

lemma first_success_from:
  assumes "a \<le> k" and "k < n"
    and "\<forall>j. a \<le> j \<and> j < k \<longrightarrow> isl (client j params)"
    and "client k params = Inr r"
  shows "generateWithRetry_from client params (int n) b a =
           (Inr (Some r),
            concat (map (retry_block client params (int n) b) [a + 1..<k + 1]) @
            [Invoke params, LogResponse r])"
  using assms
proof (induction "k - a" arbitrary: a)
  case 0
  then have "a = k" by simp
  with 0 show ?case
    by (subst generateWithRetry_from.simps) simp
next
  case (Suc d)
  then have ak: "a < k" by simp
  with Suc.prems have fa: "isl (client a params)" by simp
  then obtain e where e: "client a params = Inl e" by (cases "client a params") auto
  have lt: "a + 1 < n" using ak Suc.prems(2) by simp
  have d: "d = k - (a + 1)" using Suc.hyps(2) by simp
  have le: "a + 1 \<le> k" using ak by simp
  have rest: "\<forall>j. a + 1 \<le> j \<and> j < k \<longrightarrow> isl (client j params)"
    using Suc.prems(3) by simp
  note ih = Suc.hyps(1) [OF d le Suc.prems(2) rest Suc.prems(4)]
  have upt: "[a + 1..<k + 1] = (a + 1) # [a + 1 + 1..<k + 1]"
    using ak by (simp add: upt_conv_Cons)
  show ?case
    using lt e ih
    by (subst generateWithRetry_from.simps, subst upt) (simp add: retry_block_def)
qed

lemma retries_exhausted:
  assumes "1 \<le> n" and "\<forall>j<nat n. isl (client j params)"
  shows "generateWithRetry client params n b =
           (Inl (projl (client (nat n - 1) params)),
            concat (map (retry_block client params n b) [1..<nat n]) @
            [Invoke params, LogFailure (nat n) n (failure_msg (projl (client (nat n - 1) params)))])"
proof -
  have "0 < nat n" using assms(1) by simp
  moreover have "\<forall>j. 0 \<le> j \<and> j < nat n \<longrightarrow> isl (client j params)"
    using assms(2) by simp
  ultimately show ?thesis
    using retries_exhausted_from [of 0 "nat n" client params b] assms(1)
    by (simp add: generateWithRetry_def)
qed

lemma first_success:
  assumes "1 \<le> k" and "int k \<le> n"
    and "\<forall>j<k - 1. isl (client j params)"
    and "client (k - 1) params = Inr r"
  shows "generateWithRetry client params n b =
           (Inr (Some r),
            concat (map (retry_block client params n b) [1..<k]) @
            [Invoke params, LogResponse r])"
proof -
  have "k - 1 < nat n" using assms(1,2) by simp
  moreover have "\<forall>j. 0 \<le> j \<and> j < k - 1 \<longrightarrow> isl (client j params)"
    using assms(3) by simp
  ultimately show ?thesis
    using first_success_from [of 0 "k - 1" "nat n" client params r b] assms(1,2,4)
    by (simp add: generateWithRetry_def)
qed

section \<open>Properties of JSON.parse and of the handlers\<close>

lemma result_defined_from:
  "int a < n \<Longrightarrow> fst (generateWithRetry_from client params n b a) \<noteq> Inr None"
proof (induction client params n b a rule: generateWithRetry_from.induct)
  case (1 client params retries initialDelay attempt)
  show ?case
  proof (cases "client attempt params")
    case (Inr resp)
    with 1(2) show ?thesis
      by (subst generateWithRetry_from.simps) simp
  next
    case (Inl err)
    show ?thesis
    proof (cases "retries \<le> int (attempt + 1)")
      case True
      with Inl 1(2) show ?thesis
        by (subst generateWithRetry_from.simps) simp
    next
      case False
      then have "int (attempt + 1) < retries" by simp
      with 1(1) [OF 1(2) Inl False] have "fst (generateWithRetry_from client params retries initialDelay (attempt + 1)) \<noteq> Inr None"
        by simp
      with Inl False 1(2) show ?thesis
        by (subst generateWithRetry_from.simps) (auto split: prod.splits)
    qed
  qed
qed

lemma result_defined: "0 < n \<Longrightarrow> fst (generateWithRetry client params n b) \<noteq> Inr None"
  using result_defined_from [of 0 n client params b] by (simp add: generateWithRetry_def)









lemma three_failures:
  assumes "\<forall>j<3. isl (client j params)"
  shows "fst (generateWithRetry client params 3 b) = Inl (projl (client 2 params))"
proof -
  have "\<forall>j<nat 3. isl (client j params)" using assms by simp
  then show ?thesis
    using retries_exhausted [of 3 client params b] by simp
qed

lemma success_within_three:
  assumes "1 \<le> k" and "k \<le> 3" and "\<forall>j<k - 1. isl (client j params)"
    and "client (k - 1) params = Inr r"
  shows "fst (generateWithRetry client params 3 b) = Inr (Some r)"
  using first_success [of k 3 client params r b] assms by simp

lemma analyze_image_unavailable:
  assumes "\<forall>j<3. isl (client j (analyze_params f))"
  shows "fst (analyze_image client (Some f)) =
           \<lparr>status = 503,
            body = JObj [(''success'', JBool False), (''error'', JStr ''model unavailable''),
                         (''result'', fallback)]\<rparr>"
  using three_failures [of client "analyze_params f" 1000] assms
  by (auto simp: analyze_image_def split: prod.splits sum.splits)

lemma analyze_image_success:
  assumes "1 \<le> k" and "k \<le> 3" and "\<forall>j<k - 1. isl (client j (analyze_params f))"
    and "client (k - 1) (analyze_params f) = Inr r"
  shows "fst (analyze_image client (Some f)) =
           \<lparr>status = 200,
            body = JObj [(''success'', JBool True),
                         (''result'', parse_or_wrap (text_or_stringified (Some r)))]\<rparr>"
  using success_within_three [of k client "analyze_params f" r 1000] assms
  by (auto simp: analyze_image_def split: prod.splits sum.splits)

lemma assistant_success:
  assumes "truthy (prompt_of req_body)" and "1 \<le> k" and "k \<le> 3"
    and "\<forall>j<k - 1. isl (client j (assistant_params (prompt_of req_body)))"
    and "client (k - 1) (assistant_params (prompt_of req_body)) = Inr r"
  shows "fst (assistant client req_body) =
           \<lparr>status = 200,
            body = JObj [(''success'', JBool True),
                         (''text'', js_string (text_or_stringified (Some r)))]\<rparr>"
  using success_within_three [of k client "assistant_params (prompt_of req_body)" r 1000] assms
  by (auto simp: assistant_def split: prod.splits sum.splits)

lemma assistant_ok_text:
  assumes "status (fst (assistant client req_body)) = 200"
  shows "\<exists>s. get_prop (body (fst (assistant client req_body))) ''text'' = JStr s"
proof -
  have t: "truthy (prompt_of req_body)"
    using assms by (auto simp: assistant_def Let_def split: if_splits)
  obtain res tr where g: "generateWithRetry client (assistant_params (prompt_of req_body)) 3 1000 = (res, tr)"
    by (cases "generateWithRetry client (assistant_params (prompt_of req_body)) 3 1000")
  have "res \<noteq> Inr None"
    using result_defined [of 3 client "assistant_params (prompt_of req_body)" 1000] g by simp
  moreover have "\<not> isl res"
    using assms t g by (auto simp: assistant_def split: sum.splits)
  ultimately obtain r where "res = Inr (Some r)"
    by (cases res) auto
  with t g show ?thesis
    by (simp add: assistant_def text_or_stringified_def js_string_def split: option.splits)
qed

lemma newest_first_sorted:
  "sorted_wrt (\<lambda>a b. createdAt b \<le> createdAt a) (take n (sort_key (\<lambda>d. - createdAt d) docs))"
proof -
  have "sorted (map (\<lambda>d. - createdAt d) (take n (sort_key (\<lambda>d. - createdAt d) docs)))"
    by (simp add: sorted_wrt_take flip: take_map)
  then show ?thesis
    by (simp add: sorted_map sorted_wrt_iff_nth_less)
qed

lemma newest_first_cut:
  assumes "x \<in> set (take n (sort_key (\<lambda>d. - createdAt d) docs))"
    and "y \<in> set docs" and "y \<notin> set (take n (sort_key (\<lambda>d. - createdAt d) docs))"
  shows "createdAt y \<le> createdAt x"
proof -
  let ?s = "sort_key (\<lambda>d. - createdAt d) docs"
  have "sorted (map (\<lambda>d. - createdAt d) (take n ?s @ drop n ?s))" by simp
  then have cut: "\<forall>a \<in> set (take n ?s). \<forall>b \<in> set (drop n ?s). - createdAt a \<le> - createdAt b"
    unfolding map_append sorted_append by auto
  have "y \<in> set ?s" using assms(2) by simp
  then have "y \<in> set (take n ?s) \<union> set (drop n ?s)"
    by (metis append_take_drop_id set_append)
  with assms(3) have "y \<in> set (drop n ?s)" by simp
  with cut assms(1) show ?thesis by auto
qed



lemma parse_acne:
  \<open>JSON_parse ''{"diagnosis":"acne","confidence":80}'' =
     Some (JObj [(''diagnosis'', JStr ''acne''), (''confidence'', JNum (Finite 80))])\<close>
  by code_simp

lemma parse_hello: "JSON_parse ''hello'' = None"
  by code_simp


lemma parse_candidates: \<open>JSON_parse ''{"candidates":[]}'' = Some (JObj [(''candidates'', JArr [])])\<close>
  by code_simp


section \<open>The claims\<close>

text \<open>
  C1. For every \<^verbatim>\<open>retries\<close> \<open>n \<ge> 1\<close>: when every one of the first \<open>n\<close> calls of the
  client throws, \<open>generateWithRetry\<close> calls the client exactly \<open>n\<close> times and then
  throws the error of the last call; when the call number \<open>k \<le> n\<close> is the first that
  resolves, \<open>generateWithRetry\<close> returns its response after exactly \<open>k\<close> calls, and
  nothing happens after that response is logged.
\<close>

theorem generateWithRetry_attempts:
  assumes "1 \<le> n"
  shows "((\<forall>j<nat n. isl (client j params)) \<longrightarrow>
            fst (generateWithRetry client params n b) = Inl (projl (client (nat n - 1) params)) \<and>
            invocations (snd (generateWithRetry client params n b)) = nat n) \<and>
         (1 \<le> k \<and> int k \<le> n \<and> (\<forall>j<k - 1. isl (client j params)) \<and>
          client (k - 1) params = Inr r \<longrightarrow>
            fst (generateWithRetry client params n b) = Inr (Some r) \<and>
            invocations (snd (generateWithRetry client params n b)) = k \<and>
            last (snd (generateWithRetry client params n b)) = LogResponse r)"
proof (intro conjI impI)
  assume fails: "\<forall>j<nat n. isl (client j params)"
  note run = retries_exhausted [where client = client and params = params and b = b, OF assms fails]
  show "fst (generateWithRetry client params n b) = Inl (projl (client (nat n - 1) params))"
    by (simp add: run)
  have "invocations (snd (generateWithRetry client params n b)) = length [1..<nat n] + 1"
    by (simp add: run invocations_append invocations_blocks) (simp add: invocations_def)
  then show "invocations (snd (generateWithRetry client params n b)) = nat n"
    using assms by simp
next
  assume ok: "1 \<le> k \<and> int k \<le> n \<and> (\<forall>j<k - 1. isl (client j params)) \<and>
    client (k - 1) params = Inr r"
  then have run: "generateWithRetry client params n b =
      (Inr (Some r),
       concat (map (retry_block client params n b) [1..<k]) @ [Invoke params, LogResponse r])"
    using first_success [of k n client params r b] by simp
  show "fst (generateWithRetry client params n b) = Inr (Some r)"
    by (simp add: run)
  have "invocations (snd (generateWithRetry client params n b)) = length [1..<k] + 1"
    by (simp add: run invocations_append invocations_blocks) (simp add: invocations_def)
  then show "invocations (snd (generateWithRetry client params n b)) = k"
    using ok by simp
  show "last (snd (generateWithRetry client params n b)) = LogResponse r"
    by (simp add: run)
qed

theorem generateWithRetry_attempts_witness:
  "fst (generateWithRetry (\<lambda>k p. Inl (Error ''ApiError'' ''overloaded'')) JNull 3 1000) =
     Inl (Error ''ApiError'' ''overloaded'') \<and>
   invocations (snd (generateWithRetry (\<lambda>k p. Inl (Error ''ApiError'' ''overloaded'')) JNull 3 1000)) = 3 \<and>
   fst (generateWithRetry
          (\<lambda>k p. if k = 1 then Inr \<lparr>resp_text = Some ''ok'', stringified = ''{}''\<rparr>
                  else Inl (Error ''ApiError'' ''overloaded'')) JNull 3 1000) =
     Inr (Some \<lparr>resp_text = Some ''ok'', stringified = ''{}''\<rparr>) \<and>
   invocations (snd (generateWithRetry
          (\<lambda>k p. if k = 1 then Inr \<lparr>resp_text = Some ''ok'', stringified = ''{}''\<rparr>
                  else Inl (Error ''ApiError'' ''overloaded'')) JNull 3 1000)) = 2"
  using generateWithRetry_attempts
          [of 3 "\<lambda>k p. Inl (Error ''ApiError'' ''overloaded'')" JNull 1000 0 undefined]
        generateWithRetry_attempts
          [of 3 "\<lambda>k p. if k = 1 then Inr \<lparr>resp_text = Some ''ok'', stringified = ''{}''\<rparr>
                  else Inl (Error ''ApiError'' ''overloaded'')" JNull 1000 2
              "\<lparr>resp_text = Some ''ok'', stringified = ''{}''\<rparr>"]
  by simp

text \<open>
  C2. For every run with \<^verbatim>\<open>retries\<close> \<open>n \<ge> 1\<close> and \<^verbatim>\<open>initialDelay\<close> \<open>b\<close>: the run
  starts with a call of the client (no suspension before attempt 1); the failed attempt
  number \<open>i < n\<close> is followed by a suspension of exactly \<open>b * 2 ^ (i - 1)\<close> and then
  by the next call; the failure number \<open>n\<close> is logged and rethrown with no suspension
  after it. The same holds up to the first call that resolves.
\<close>

theorem generateWithRetry_backoff:
  assumes "1 \<le> n"
  shows "((\<forall>j<nat n. isl (client j params)) \<longrightarrow>
            snd (generateWithRetry client params n b) =
              concat (map (retry_block client params n b) [1..<nat n]) @
              [Invoke params,
               LogFailure (nat n) n (failure_msg (projl (client (nat n - 1) params)))] \<and>
            delays (snd (generateWithRetry client params n b)) =
              map (\<lambda>i. b * 2 ^ (i - 1)) [1..<nat n]) \<and>
         (1 \<le> k \<and> int k \<le> n \<and> (\<forall>j<k - 1. isl (client j params)) \<and>
          client (k - 1) params = Inr r \<longrightarrow>
            snd (generateWithRetry client params n b) =
              concat (map (retry_block client params n b) [1..<k]) @
              [Invoke params, LogResponse r] \<and>
            delays (snd (generateWithRetry client params n b)) =
              map (\<lambda>i. b * 2 ^ (i - 1)) [1..<k])"
proof (intro conjI impI)
  assume fails: "\<forall>j<nat n. isl (client j params)"
  note run = retries_exhausted [where client = client and params = params and b = b, OF assms fails]
  show "snd (generateWithRetry client params n b) =
          concat (map (retry_block client params n b) [1..<nat n]) @
          [Invoke params,
           LogFailure (nat n) n (failure_msg (projl (client (nat n - 1) params)))]"
    by (simp add: run)
  show "delays (snd (generateWithRetry client params n b)) =
          map (\<lambda>i. b * 2 ^ (i - 1)) [1..<nat n]"
    by (simp add: run delays_append delays_blocks) (simp add: delays_def)
next
  assume ok: "1 \<le> k \<and> int k \<le> n \<and> (\<forall>j<k - 1. isl (client j params)) \<and>
    client (k - 1) params = Inr r"
  then have run: "generateWithRetry client params n b =
      (Inr (Some r),
       concat (map (retry_block client params n b) [1..<k]) @ [Invoke params, LogResponse r])"
    using first_success [of k n client params r b] by simp
  show "snd (generateWithRetry client params n b) =
          concat (map (retry_block client params n b) [1..<k]) @
          [Invoke params, LogResponse r]"
    by (simp add: run)
  show "delays (snd (generateWithRetry client params n b)) =
          map (\<lambda>i. b * 2 ^ (i - 1)) [1..<k]"
    by (simp add: run delays_append delays_blocks) (simp add: delays_def)
qed

text \<open>With \<^verbatim>\<open>retries = 3\<close> and \<^verbatim>\<open>initialDelay = 1000\<close>: 1000 ms, then 2000 ms.\<close>

theorem generateWithRetry_backoff_witness:
  "snd (generateWithRetry (\<lambda>k p. Inl (Error ''ApiError'' ''overloaded'')) JNull 3 1000) =
     [Invoke JNull, LogFailure 1 3 ''overloaded'', Sleep 1000,
      Invoke JNull, LogFailure 2 3 ''overloaded'', Sleep 2000,
      Invoke JNull, LogFailure 3 3 ''overloaded''] \<and>
   delays (snd (generateWithRetry (\<lambda>k p. Inl (Error ''ApiError'' ''overloaded'')) JNull 3 1000)) =
     [1000, 2000] \<and>
   delays (snd (generateWithRetry
          (\<lambda>k p. if k = 1 then Inr \<lparr>resp_text = Some ''ok'', stringified = ''{}''\<rparr>
                  else Inl (Error ''ApiError'' ''overloaded'')) JNull 3 1000)) = [1000]"
  using generateWithRetry_backoff
          [of 3 "\<lambda>k p. Inl (Error ''ApiError'' ''overloaded'')" JNull 1000 0 undefined]
        generateWithRetry_backoff
          [of 3 "\<lambda>k p. if k = 1 then Inr \<lparr>resp_text = Some ''ok'', stringified = ''{}''\<rparr>
                  else Inl (Error ''ApiError'' ''overloaded'')" JNull 1000 2
              "\<lparr>resp_text = Some ''ok'', stringified = ''{}''\<rparr>"]
  by (simp add: retry_block_def failure_msg_def delays_def upt_rec numeral_eq_Suc)

text \<open>
  C3. For every request to \<^verbatim>\<open>/api/analyze-image\<close> that carries an image and on
  which all three attempts of \<open>generateWithRetry\<close> fail, the handler answers with
  status 503 and the body \<^verbatim>\<open>{ success: false, error: "model unavailable", result: F }\<close>,
  where \<open>F\<close> is the constant \<open>fallback\<close>: it depends neither on the request nor on
  anything the client returned, its \<^verbatim>\<open>diagnosis\<close> is \<^verbatim>\<open>"other"\<close> and its
  \<^verbatim>\<open>refer_to_dermatologist\<close> is \<^verbatim>\<open>false\<close>.
\<close>

theorem analyze_image_fallback:
  assumes "\<forall>j<3. isl (client j (analyze_params f))"
  shows "fst (analyze_image client (Some f)) =
           \<lparr>status = 503,
            body = JObj [(''success'', JBool False), (''error'', JStr ''model unavailable''),
                         (''result'', fallback)]\<rparr> \<and>
         get_prop fallback ''diagnosis'' = JStr ''other'' \<and>
         get_prop fallback ''refer_to_dermatologist'' = JBool False"
  using analyze_image_unavailable [of client f] assms
  by (simp add: fallback_def)

theorem analyze_image_fallback_witness:
  "fst (analyze_image (\<lambda>k p. Inl (Error ''ApiError'' ''overloaded''))
          (Some \<lparr>mimetype = ''image/png'', base64 = ''iVBORw0KGgo=''\<rparr>)) =
     \<lparr>status = 503,
      body = JObj [(''success'', JBool False), (''error'', JStr ''model unavailable''),
                   (''result'', fallback)]\<rparr> \<and>
   fst (analyze_image (\<lambda>k p. Inl (Error ''Error'' ''fetch failed''))
          (Some \<lparr>mimetype = [], base64 = ''/9j/4AAQ''\<rparr>)) =
     \<lparr>status = 503,
      body = JObj [(''success'', JBool False), (''error'', JStr ''model unavailable''),
                   (''result'', fallback)]\<rparr>"
  using analyze_image_fallback
          [of "\<lambda>k p. Inl (Error ''ApiError'' ''overloaded'')"
              "\<lparr>mimetype = ''image/png'', base64 = ''iVBORw0KGgo=''\<rparr>"]
        analyze_image_fallback
          [of "\<lambda>k p. Inl (Error ''Error'' ''fetch failed'')"
              "\<lparr>mimetype = [], base64 = ''/9j/4AAQ''\<rparr>"]
  by simp

text \<open>
  C4. For every request to \<^verbatim>\<open>/api/analyze-image\<close> whose call of the model succeeds
  (at the attempt \<open>k \<le> 3\<close>) with the text \<open>t\<close>: when \<^verbatim>\<open>JSON.parse\<close> accepts \<open>t\<close>
  the handler answers \<^verbatim>\<open>{ success: true, result: v }\<close> with the parsed value \<open>v\<close>;
  when it throws, the handler answers
  \<^verbatim>\<open>{ success: true, result: { rawText: t } }\<close>.
\<close>

theorem analyze_image_shaping:
  assumes "1 \<le> k" and "k \<le> 3" and "\<forall>j<k - 1. isl (client j (analyze_params f))"
    and "client (k - 1) (analyze_params f) = Inr r" and "resp_text r = Some t"
  shows "(JSON_parse t = Some v \<longrightarrow>
            fst (analyze_image client (Some f)) =
              \<lparr>status = 200, body = JObj [(''success'', JBool True), (''result'', v)]\<rparr>) \<and>
         (JSON_parse t = None \<longrightarrow>
            fst (analyze_image client (Some f)) =
              \<lparr>status = 200,
               body = JObj [(''success'', JBool True),
                            (''result'', JObj [(''rawText'', JStr t)])]\<rparr>)"
  using analyze_image_success [of k client f r] assms
  by (simp add: parse_or_wrap_def text_or_stringified_def ToString_def js_string_def)

text \<open>
  The text \<^verbatim>\<open>{"diagnosis":"acne","confidence":80}\<close> gives the parsed object, the
  text \<^verbatim>\<open>hello\<close> (here after one failed attempt) gives the wrapper.
\<close>

theorem analyze_image_shaping_witness:
  \<open>fst (analyze_image
          (\<lambda>k p. Inr \<lparr>resp_text = Some ''{"diagnosis":"acne","confidence":80}'',
                       stringified = ''{}''\<rparr>)
          (Some \<lparr>mimetype = ''image/png'', base64 = ''iVBORw0KGgo=''\<rparr>)) =
     \<lparr>status = 200,
      body = JObj [(''success'', JBool True),
                   (''result'', JObj [(''diagnosis'', JStr ''acne''), (''confidence'', JNum (Finite 80))])]\<rparr> \<and>
   fst (analyze_image
          (\<lambda>k p. if k = 1 then Inr \<lparr>resp_text = Some ''hello'', stringified = ''{}''\<rparr>
                  else Inl (Error ''ApiError'' ''overloaded''))
          (Some \<lparr>mimetype = ''image/png'', base64 = ''iVBORw0KGgo=''\<rparr>)) =
     \<lparr>status = 200,
      body = JObj [(''success'', JBool True),
                   (''result'', JObj [(''rawText'', JStr ''hello'')])]\<rparr>\<close>
  using analyze_image_shaping
          [of 1 \<open>\<lambda>k p. Inr \<lparr>resp_text = Some ''{"diagnosis":"acne","confidence":80}'',
                                stringified = ''{}''\<rparr>\<close>
              "\<lparr>mimetype = ''image/png'', base64 = ''iVBORw0KGgo=''\<rparr>"
              \<open>\<lparr>resp_text = Some ''{"diagnosis":"acne","confidence":80}'', stringified = ''{}''\<rparr>\<close>
              \<open>''{"diagnosis":"acne","confidence":80}''\<close>
              "JObj [(''diagnosis'', JStr ''acne''), (''confidence'', JNum (Finite 80))]"]
        analyze_image_shaping
          [of 2 "\<lambda>k p. if k = 1 then Inr \<lparr>resp_text = Some ''hello'', stringified = ''{}''\<rparr>
                  else Inl (Error ''ApiError'' ''overloaded'')"
              "\<lparr>mimetype = ''image/png'', base64 = ''iVBORw0KGgo=''\<rparr>"
              "\<lparr>resp_text = Some ''hello'', stringified = ''{}''\<rparr>"
              "''hello''" undefined]
        parse_acne parse_hello
  by simp

text \<open>
  C5. For every request to \<^verbatim>\<open>/api/assistant\<close> whose \<^verbatim>\<open>prompt\<close> is falsy (the
  body has no \<^verbatim>\<open>prompt\<close>, as the body \<^verbatim>\<open>{}\<close>, or an empty one), the handler
  answers with status 400 and \<^verbatim>\<open>{ success: false, error: "Missing prompt" }\<close>, and
  nothing else happens: \<open>generateWithRetry\<close> is not called and the client is never
  invoked.
\<close>

theorem assistant_missing_prompt:
  assumes "\<not> truthy (prompt_of req_body)"
  shows "assistant client req_body =
           (\<lparr>status = 400,
             body = JObj [(''success'', JBool False), (''error'', JStr ''Missing prompt'')]\<rparr>,
            []) \<and>
         invocations (snd (assistant client req_body)) = 0"
  using assms by (simp add: assistant_def invocations_def)

theorem assistant_missing_prompt_witness:
  "assistant (\<lambda>k p. Inr \<lparr>resp_text = Some ''ok'', stringified = ''{}''\<rparr>) (JObj []) =
     (\<lparr>status = 400,
       body = JObj [(''success'', JBool False), (''error'', JStr ''Missing prompt'')]\<rparr>, []) \<and>
   assistant (\<lambda>k p. Inr \<lparr>resp_text = Some ''ok'', stringified = ''{}''\<rparr>)
     (JObj [(''prompt'', JStr [])]) =
     (\<lparr>status = 400,
       body = JObj [(''success'', JBool False), (''error'', JStr ''Missing prompt'')]\<rparr>, []) \<and>
   assistant (\<lambda>k p. Inr \<lparr>resp_text = Some ''ok'', stringified = ''{}''\<rparr>) JUndefined =
     (\<lparr>status = 400,
       body = JObj [(''success'', JBool False), (''error'', JStr ''Missing prompt'')]\<rparr>, [])"
  using assistant_missing_prompt
          [of "JObj []" "\<lambda>k p. Inr \<lparr>resp_text = Some ''ok'', stringified = ''{}''\<rparr>"]
        assistant_missing_prompt
          [of "JObj [(''prompt'', JStr [])]"
              "\<lambda>k p. Inr \<lparr>resp_text = Some ''ok'', stringified = ''{}''\<rparr>"]
        assistant_missing_prompt
          [of JUndefined "\<lambda>k p. Inr \<lparr>resp_text = Some ''ok'', stringified = ''{}''\<rparr>"]
  by (simp add: prompt_of_def)

text \<open>
  C6. For every request to \<^verbatim>\<open>/api/assistant\<close> whose call of the model succeeds (at
  the attempt \<open>k \<le> 3\<close>) with the text \<open>t\<close>, the handler answers with exactly
  \<^verbatim>\<open>{ success: true, text: t }\<close>: the text is passed on as it is, also when it is
  JSON text; it is neither parsed nor wrapped.
\<close>

theorem assistant_text_passthrough:
  assumes "truthy (prompt_of req_body)" and "1 \<le> k" and "k \<le> 3"
    and "\<forall>j<k - 1. isl (client j (assistant_params (prompt_of req_body)))"
    and "client (k - 1) (assistant_params (prompt_of req_body)) = Inr r"
    and "resp_text r = Some t"
  shows "fst (assistant client req_body) =
           \<lparr>status = 200, body = JObj [(''success'', JBool True), (''text'', JStr t)]\<rparr>"
  using assistant_success [of req_body k client r] assms
  by (simp add: text_or_stringified_def js_string_def)

theorem assistant_text_passthrough_witness:
  \<open>fst (assistant
          (\<lambda>k p. Inr \<lparr>resp_text = Some ''{"diagnosis":"acne","confidence":80}'',
                       stringified = ''{}''\<rparr>)
          (JObj [(''prompt'', JStr ''What is acne?'')])) =
     \<lparr>status = 200,
      body = JObj [(''success'', JBool True),
                   (''text'', JStr ''{"diagnosis":"acne","confidence":80}'')]\<rparr> \<and>
   fst (assistant
          (\<lambda>k p. if k = 2 then Inr \<lparr>resp_text = Some ''hello'', stringified = ''{}''\<rparr>
                  else Inl (Error ''ApiError'' ''overloaded''))
          (JObj [(''prompt'', JStr ''What is acne?'')])) =
     \<lparr>status = 200, body = JObj [(''success'', JBool True), (''text'', JStr ''hello'')]\<rparr>\<close>
  using assistant_text_passthrough
          [of "JObj [(''prompt'', JStr ''What is acne?'')]" 1
              \<open>\<lambda>k p. Inr \<lparr>resp_text = Some ''{"diagnosis":"acne","confidence":80}'',
                             stringified = ''{}''\<rparr>\<close>
              \<open>\<lparr>resp_text = Some ''{"diagnosis":"acne","confidence":80}'', stringified = ''{}''\<rparr>\<close>
              \<open>''{"diagnosis":"acne","confidence":80}''\<close>]
        assistant_text_passthrough
          [of "JObj [(''prompt'', JStr ''What is acne?'')]" 3
              "\<lambda>k p. if k = 2 then Inr \<lparr>resp_text = Some ''hello'', stringified = ''{}''\<rparr>
                  else Inl (Error ''ApiError'' ''overloaded'')"
              "\<lparr>resp_text = Some ''hello'', stringified = ''{}''\<rparr>" "''hello''"]
  by (simp add: prompt_of_def less_Suc_eq numeral_2_eq_2)




text \<open>
  C8. For every request to \<^verbatim>\<open>GET /api/analyses\<close>: when the store answers the
  query, the handler answers \<^verbatim>\<open>{ success: true, analyses: L }\<close> with status 200,
  where \<open>L\<close> holds at most 100 documents of the collection (all of them when there
  are no more than 100), by descending \<^verbatim>\<open>createdAt\<close>, and no document left out is
  more recent than one in \<open>L\<close>; when the store fails, the handler answers with status
  500 and \<^verbatim>\<open>{ success: false, error: message }\<close>.
\<close>

theorem list_analyses_newest_first:
  "(s = Available docs \<longrightarrow>
      (\<exists>L. fst (list_analyses s) = \<lparr>status = 200, body = Analyses True L\<rparr> \<and>
           length L \<le> 100 \<and> length L = min 100 (length docs) \<and>
           sorted_wrt (\<lambda>a b. createdAt b \<le> createdAt a) L \<and>
           set L \<subseteq> set docs \<and>
           (\<forall>x \<in> set L. \<forall>y \<in> set docs - set L. createdAt y \<le> createdAt x))) \<and>
   (s = Unavailable err \<longrightarrow>
      fst (list_analyses s) = \<lparr>status = 500, body = Failure False (message err)\<rparr>)"
proof (intro conjI impI)
  assume s: "s = Available docs"
  let ?L = "take 100 (sort_key (\<lambda>d. - createdAt d) docs)"
  have "fst (list_analyses s) = \<lparr>status = 200, body = Analyses True ?L\<rparr>"
    by (simp add: s list_analyses_def find_sort_limit_def)
  moreover have "length ?L \<le> 100" by simp
  moreover have "length ?L = min 100 (length docs)" by (simp add: min.commute)
  moreover have "sorted_wrt (\<lambda>a b. createdAt b \<le> createdAt a) ?L"
    by (rule newest_first_sorted)
  moreover have "set ?L \<subseteq> set docs"
    using set_take_subset [of 100 "sort_key (\<lambda>d. - createdAt d) docs"] by simp
  moreover have "\<forall>x \<in> set ?L. \<forall>y \<in> set docs - set ?L. createdAt y \<le> createdAt x"
    using newest_first_cut [of _ 100 docs] by blast
  ultimately show "\<exists>L. fst (list_analyses s) = \<lparr>status = 200, body = Analyses True L\<rparr> \<and>
           length L \<le> 100 \<and> length L = min 100 (length docs) \<and>
           sorted_wrt (\<lambda>a b. createdAt b \<le> createdAt a) L \<and>
           set L \<subseteq> set docs \<and>
           (\<forall>x \<in> set L. \<forall>y \<in> set docs - set L. createdAt y \<le> createdAt x)"
    by blast
next
  assume "s = Unavailable err"
  then show "fst (list_analyses s) = \<lparr>status = 500, body = Failure False (message err)\<rparr>"
    by (simp add: list_analyses_def find_sort_limit_def)
qed

theorem list_analyses_newest_first_witness:
  "status (fst (list_analyses (Available sample_docs))) = 200 \<and>
   body (fst (list_analyses (Available sample_docs))) =
     Analyses True [sample_docs ! 1, sample_docs ! 2, sample_docs ! 0] \<and>
   fst (list_analyses (Unavailable (Error ''MongooseError'' ''buffering timed out''))) =
     \<lparr>status = 500, body = Failure False ''buffering timed out''\<rparr>"
proof -
  from list_analyses_newest_first [of "Available sample_docs" sample_docs undefined]
  obtain L where "fst (list_analyses (Available sample_docs)) = \<lparr>status = 200, body = Analyses True L\<rparr>"
    by blast
  then have a: "status (fst (list_analyses (Available sample_docs))) = 200" by simp
  have b: "body (fst (list_analyses (Available sample_docs))) =
     Analyses True [sample_docs ! 1, sample_docs ! 2, sample_docs ! 0]"
    by (simp add: list_analyses_def find_sort_limit_def sample_docs_def)
  from list_analyses_newest_first
         [of "Unavailable (Error ''MongooseError'' ''buffering timed out'')" undefined
             "Error ''MongooseError'' ''buffering timed out''"]
  have c: "fst (list_analyses (Unavailable (Error ''MongooseError'' ''buffering timed out''))) =
     \<lparr>status = 500, body = Failure False ''buffering timed out''\<rparr>"
    by simp
  from a b c show ?thesis by simp
qed

text \<open>
  C9. With \<^verbatim>\<open>retries \<le> 0\<close> the loop body never runs: \<open>generateWithRetry\<close> makes no
  call of the client, has no other effect, and returns \<^verbatim>\<open>undefined\<close>: neither a
  response nor a thrown error.
\<close>

theorem generateWithRetry_no_attempts:
  assumes "n \<le> 0"
  shows "generateWithRetry client params n b = (Inr None, []) \<and>
         invocations (snd (generateWithRetry client params n b)) = 0"
  using assms
  by (simp add: generateWithRetry_def generateWithRetry_from.simps invocations_def)

theorem generateWithRetry_no_attempts_witness:
  "generateWithRetry (\<lambda>k p. Inr \<lparr>resp_text = Some ''ok'', stringified = ''{}''\<rparr>) JNull 0 1000 =
     (Inr None, []) \<and>
   generateWithRetry (\<lambda>k p. Inl (Error ''ApiError'' ''overloaded'')) JNull (- 2) 1000 =
     (Inr None, [])"
  using generateWithRetry_no_attempts
          [of 0 "\<lambda>k p. Inr \<lparr>resp_text = Some ''ok'', stringified = ''{}''\<rparr>" JNull 1000]
        generateWithRetry_no_attempts
          [of "- 2" "\<lambda>k p. Inl (Error ''ApiError'' ''overloaded'')" JNull 1000]
  by simp

text \<open>
  C10. When the call of the model succeeds with a response that has no text
  (\<^verbatim>\<open>response.text\<close> is \<^verbatim>\<open>undefined\<close>), both handlers take
  \<^verbatim>\<open>JSON.stringify(response)\<close> in its place: \<^verbatim>\<open>/api/assistant\<close> answers with
  it as \<^verbatim>\<open>text\<close>, \<^verbatim>\<open>/api/analyze-image\<close> hands it to the parse-or-wrap step.
  So the \<^verbatim>\<open>text\<close> of a success response of \<^verbatim>\<open>/api/assistant\<close> is always a
  string, never absent or \<^verbatim>\<open>undefined\<close>.
\<close>

theorem absent_text_substitution:
  assumes "resp_text r = None"
  shows "(truthy (prompt_of req_body) \<and> 1 \<le> k \<and> k \<le> 3 \<and>
          (\<forall>j<k - 1. isl (client j (assistant_params (prompt_of req_body)))) \<and>
          client (k - 1) (assistant_params (prompt_of req_body)) = Inr r \<longrightarrow>
            fst (assistant client req_body) =
              \<lparr>status = 200,
               body = JObj [(''success'', JBool True), (''text'', JStr (stringified r))]\<rparr>) \<and>
         (1 \<le> k \<and> k \<le> 3 \<and> (\<forall>j<k - 1. isl (client j (analyze_params f))) \<and>
          client (k - 1) (analyze_params f) = Inr r \<longrightarrow>
            fst (analyze_image client (Some f)) =
              \<lparr>status = 200,
               body = JObj [(''success'', JBool True),
                            (''result'', parse_or_wrap (Some (stringified r)))]\<rparr>) \<and>
         (status (fst (assistant client req_body)) = 200 \<longrightarrow>
            (\<exists>s. get_prop (body (fst (assistant client req_body))) ''text'' = JStr s))"
proof (intro conjI impI)
  assume "truthy (prompt_of req_body) \<and> 1 \<le> k \<and> k \<le> 3 \<and>
          (\<forall>j<k - 1. isl (client j (assistant_params (prompt_of req_body)))) \<and>
          client (k - 1) (assistant_params (prompt_of req_body)) = Inr r"
  then show "fst (assistant client req_body) =
              \<lparr>status = 200,
               body = JObj [(''success'', JBool True), (''text'', JStr (stringified r))]\<rparr>"
    using assistant_success [of req_body k client r] assms
    by (simp add: text_or_stringified_def js_string_def)
next
  assume "1 \<le> k \<and> k \<le> 3 \<and> (\<forall>j<k - 1. isl (client j (analyze_params f))) \<and>
          client (k - 1) (analyze_params f) = Inr r"
  then show "fst (analyze_image client (Some f)) =
              \<lparr>status = 200,
               body = JObj [(''success'', JBool True),
                            (''result'', parse_or_wrap (Some (stringified r)))]\<rparr>"
    using analyze_image_success [of k client f r] assms
    by (simp add: text_or_stringified_def)
next
  assume "status (fst (assistant client req_body)) = 200"
  then show "\<exists>s. get_prop (body (fst (assistant client req_body))) ''text'' = JStr s"
    by (rule assistant_ok_text)
qed

theorem absent_text_substitution_witness:
  \<open>fst (assistant (\<lambda>k p. Inr \<lparr>resp_text = None, stringified = ''{"candidates":[]}''\<rparr>)
          (JObj [(''prompt'', JStr ''What is acne?'')])) =
     \<lparr>status = 200,
      body = JObj [(''success'', JBool True), (''text'', JStr ''{"candidates":[]}'')]\<rparr> \<and>
   fst (analyze_image (\<lambda>k p. Inr \<lparr>resp_text = None, stringified = ''{"candidates":[]}''\<rparr>)
          (Some \<lparr>mimetype = ''image/png'', base64 = ''iVBORw0KGgo=''\<rparr>)) =
     \<lparr>status = 200,
      body = JObj [(''success'', JBool True),
                   (''result'', JObj [(''candidates'', JArr [])])]\<rparr>\<close>
  using absent_text_substitution
          [of \<open>\<lparr>resp_text = None, stringified = ''{"candidates":[]}''\<rparr>\<close>
              "JObj [(''prompt'', JStr ''What is acne?'')]" 1
              \<open>\<lambda>k p. Inr \<lparr>resp_text = None, stringified = ''{"candidates":[]}''\<rparr>\<close>
              "\<lparr>mimetype = ''image/png'', base64 = ''iVBORw0KGgo=''\<rparr>"]
        parse_candidates
  by (simp add: prompt_of_def parse_or_wrap_def ToString_def)

end
